theory Spec2Isabelle
  imports Complex_Main "HOL-Library.AList" "HOL-Library.Monad_Syntax"
begin

section \<open>SciAnim: the Tween and Timeline engine of \<^verbatim>\<open>src/SciAnim.js\<close>\<close>

text \<open>
  The embedding follows the JavaScript source function by function.

  \<^item> Objects live in a heap and values refer to them by address, as in the source: a
    target, an end value, a captured start value and the value of a property are
    references, two of which may designate the same object, and an assignment to a
    property changes the object for every holder of a reference to it. An object is a
    plain record of own data properties, an array or an instance of \<^verbatim>\<open>Vec2\<close>; every
    one inherits from its standard prototype. Inherited members are not values of the
    model: a method is called where the source calls it (\<^verbatim>\<open>clone\<close>,
    \<^verbatim>\<open>hasOwnProperty\<close>, with the \<^verbatim>\<open>TypeError\<close> of an own property that hides it),
    and a property name that is no own property reads as \<^verbatim>\<open>undefined\<close>. Accessor
    properties are not modelled.
  \<^item> Numbers are exact reals. IEEE rounding is written out where a claim depends on it,
    which is the running start time of \<^verbatim>\<open>Timeline.sequence\<close>; everywhere else it is not
    part of the model. \<^verbatim>\<open>NaN\<close> and the infinities are no numbers of the model: the
    two places where the source can leave the finite numbers from finite operands without
    an overflow (the division by \<^verbatim>\<open>duration\<close> in \<^verbatim>\<open>Tween.update\<close> and the remainder
    by \<^verbatim>\<open>duration\<close> in \<^verbatim>\<open>Timeline.update\<close>) are written out and return \<open>None\<close>
    there.
  \<^item> A result of type \<open>'a option\<close> is \<open>None\<close> where the source throws a
    \<^verbatim>\<open>TypeError\<close> (reading or assigning a property of \<^verbatim>\<open>undefined\<close>, assigning a
    property of a primitive in strict mode, calling \<^verbatim>\<open>clone\<close> on a value that has
    none, calling \<^verbatim>\<open>hasOwnProperty\<close> on a record that has an own property of that
    name) and where it computes a value the model does not hold (a non-finite number,
    arithmetic on a non-number, an array that grows, a further property of a
    \<^verbatim>\<open>Vec2\<close>).
  \<^item> A callback is an identifier; calling it is an event of the trace, as is a line
    written to the console. The body of a callback is the caller's code and is taken
    not to write to the heap.
  \<^item> The timeline, its entries and the tweens are records of the model and no objects
    of the heap: no binding designates a field of the engine itself. An entry holds its
    tween by value: a \<^verbatim>\<open>Tween\<close> object belongs to at most one entry of one timeline.
  \<^item> \<^verbatim>\<open>sceneRef\<close> is \<^verbatim>\<open>null\<close>: registering a tween or a timeline with a scene is
    outside the engine.
\<close>

subsection \<open>Values and the heap\<close>

datatype jsval =
    Undefined
  | Null
  | Bool bool
  | Num real
  | Str string
  | Ref nat

text \<open>
  An object: the own properties of a plain record in enumeration order, the elements of
  an array, the fields \<^verbatim>\<open>x\<close> and \<^verbatim>\<open>y\<close> of a \<^verbatim>\<open>Vec2\<close>.
\<close>

datatype jsobj =
    Plain "(string \<times> jsval) list"
  | Array "jsval list"
  | Vec2 jsval jsval

text \<open>
  The heap is the list of the objects created so far; the address of an object is its
  index, and a new object goes to the end. An address beyond the heap designates no
  object, and no state of a program holds one: it reads as a record without properties,
  and nothing can be assigned to it.
\<close>

type_synonym heap = "jsobj list"

definition obj_at :: "heap \<Rightarrow> nat \<Rightarrow> jsobj option" where
  "obj_at h a = (if a < length h then Some (h ! a) else None)"

definition the_obj :: "heap \<Rightarrow> nat \<Rightarrow> jsobj" where
  "the_obj h a = (case obj_at h a of Some ob \<Rightarrow> ob | None \<Rightarrow> Plain [])"

definition alloc :: "heap \<Rightarrow> jsobj \<Rightarrow> jsval \<times> heap" where
  "alloc h ob = (Ref (length h), h @ [ob])"

datatype jstype = TUndefined | TObject | TBoolean | TNumber | TString

fun typeof :: "jsval \<Rightarrow> jstype" where
  "typeof Undefined = TUndefined"
| "typeof Null = TObject"
| "typeof (Bool b) = TBoolean"
| "typeof (Num n) = TNumber"
| "typeof (Str s) = TString"
| "typeof (Ref a) = TObject"

fun instanceofVec2 :: "heap \<Rightarrow> jsval \<Rightarrow> bool" where
  "instanceofVec2 h (Ref a) = (case the_obj h a of Vec2 x y \<Rightarrow> True | _ \<Rightarrow> False)"
| "instanceofVec2 h v = False"

fun isArray :: "heap \<Rightarrow> jsval \<Rightarrow> bool" where
  "isArray h (Ref a) = (case the_obj h a of Array xs \<Rightarrow> True | _ \<Rightarrow> False)"
| "isArray h v = False"

text \<open>\<^verbatim>\<open>typeof v === 'object' && v !== null\<close>\<close>

definition isObject :: "jsval \<Rightarrow> bool" where
  "isObject v = (typeof v = TObject \<and> v \<noteq> Null)"

text \<open>Decimal text of an array index, as JavaScript writes the keys of an array.\<close>

function show_nat :: "nat \<Rightarrow> string" where
  "show_nat n =
     (if n < 10 then [''0123456789'' ! n]
      else show_nat (n div 10) @ [''0123456789'' ! (n mod 10)])"
  by pat_completeness auto
termination
  by (relation "measure id") auto

declare show_nat.simps [simp del]

text \<open>The own enumerable properties of an object and of a value, in enumeration order.\<close>

fun props :: "jsobj \<Rightarrow> (string \<times> jsval) list" where
  "props (Plain kvs) = kvs"
| "props (Vec2 x y) = [(''x'', x), (''y'', y)]"
| "props (Array xs) = zip (map show_nat [0..<length xs]) xs"

fun own_props :: "heap \<Rightarrow> jsval \<Rightarrow> (string \<times> jsval) list" where
  "own_props h (Ref a) = props (the_obj h a)"
| "own_props h (Str s) = zip (map show_nat [0..<length s]) (map (\<lambda>c. Str [c]) s)"
| "own_props h v = []"

text \<open>
  \<^verbatim>\<open>ob[k]\<close> for an object: an own property, the \<^verbatim>\<open>length\<close> of an array, or
  \<^verbatim>\<open>undefined\<close>.
\<close>

definition field :: "jsobj \<Rightarrow> string \<Rightarrow> jsval" where
  "field ob k =
     (case map_of (props ob) k of
        Some x \<Rightarrow> x
      | None \<Rightarrow>
          (case ob of
             Array xs \<Rightarrow> if k = ''length'' then Num (real (length xs)) else Undefined
           | _ \<Rightarrow> Undefined))"

text \<open>\<^verbatim>\<open>v[k]\<close> on a value that is neither \<^verbatim>\<open>undefined\<close> nor \<^verbatim>\<open>null\<close>.\<close>

fun get_prop :: "heap \<Rightarrow> jsval \<Rightarrow> string \<Rightarrow> jsval" where
  "get_prop h (Ref a) k = field (the_obj h a) k"
| "get_prop h (Str s) k =
     (case map_of (own_props h (Str s)) k of
        Some x \<Rightarrow> x
      | None \<Rightarrow> if k = ''length'' then Num (real (length s)) else Undefined)"
| "get_prop h v k = Undefined"

text \<open>
  \<^verbatim>\<open>v.hasOwnProperty(k)\<close>, a method call: a \<^verbatim>\<open>TypeError\<close> on \<^verbatim>\<open>undefined\<close> and
  \<^verbatim>\<open>null\<close> and on a value with an own property named \<^verbatim>\<open>hasOwnProperty\<close>, which hides
  the inherited method and holds no function. The method answers for the enumerable own
  properties and for \<^verbatim>\<open>length\<close>, which an array and a string own without enumerating
  it.
\<close>

definition hasOwnProperty :: "heap \<Rightarrow> jsval \<Rightarrow> string \<Rightarrow> bool option" where
  "hasOwnProperty h v k =
     (if v = Undefined \<or> v = Null then None
      else if map_of (own_props h v) ''hasOwnProperty'' \<noteq> None then None
      else Some (map_of (own_props h v) k \<noteq> None
                 \<or> (k = ''length'' \<and> (isArray h v \<or> typeof v = TString))))"

definition index_of :: "string \<Rightarrow> nat \<Rightarrow> nat option" where
  "index_of k n = List.find (\<lambda>i. show_nat i = k) [0..<n]"

text \<open>
  \<^verbatim>\<open>ob[k] = x\<close> for an object. \<open>None\<close>: a result that is no object of the model (a
  \<^verbatim>\<open>Vec2\<close> with a further property, an array written outside its indices).
\<close>

fun put :: "jsobj \<Rightarrow> string \<Rightarrow> jsval \<Rightarrow> jsobj option" where
  "put (Plain kvs) k x = Some (Plain (AList.update k x kvs))"
| "put (Vec2 vx vy) k x =
     (if k = ''x'' then Some (Vec2 x vy)
      else if k = ''y'' then Some (Vec2 vx x)
      else None)"
| "put (Array xs) k x =
     (case index_of k (length xs) of
        Some i \<Rightarrow> Some (Array (xs[i := x]))
      | None \<Rightarrow> None)"

text \<open>
  \<^verbatim>\<open>v[k] = x\<close> under \<^verbatim>\<open>'use strict'\<close>: the object that \<open>v\<close> refers to changes in
  place. \<open>None\<close> also stands for the \<^verbatim>\<open>TypeError\<close> on \<^verbatim>\<open>undefined\<close>, \<^verbatim>\<open>null\<close> and
  the primitives.
\<close>

fun set_prop :: "heap \<Rightarrow> jsval \<Rightarrow> string \<Rightarrow> jsval \<Rightarrow> heap option" where
  "set_prop h (Ref a) k x =
     (case obj_at h a of
        None \<Rightarrow> None
      | Some ob \<Rightarrow> map_option (\<lambda>ob'. h[a := ob']) (put ob k x))"
| "set_prop h v k x = None"

subsection \<open>Property paths\<close>

text \<open>\<^verbatim>\<open>propertyPath.split('.')\<close> and \<^verbatim>\<open>propertyPath.join('.')\<close>\<close>

fun split_dot :: "string \<Rightarrow> string list" where
  "split_dot [] = [] # []"
| "split_dot (c # cs) =
     (if c = CHR ''.'' then [] # split_dot cs
      else (case split_dot cs of
              [] \<Rightarrow> [c] # []
            | x # xs \<Rightarrow> (c # x) # xs))"

fun join_dot :: "string list \<Rightarrow> string" where
  "join_dot [] = []"
| "join_dot (x # []) = x"
| "join_dot (x # y # ys) = x @ ''.'' @ join_dot (y # ys)"

definition dummyPath :: string where
  "dummyPath = ''_dummyPropertyForColorTween''"

text \<open>
  \<^verbatim>\<open>_getDeepProperty(obj, path)\<close>: the loop returns \<^verbatim>\<open>undefined\<close> as soon as the
  current value is \<^verbatim>\<open>undefined\<close> or \<^verbatim>\<open>null\<close>.
\<close>

fun getDeepProperty :: "heap \<Rightarrow> jsval \<Rightarrow> string list \<Rightarrow> jsval" where
  "getDeepProperty h cur [] = cur"
| "getDeepProperty h cur (k # ks) =
     (if cur = Undefined \<or> cur = Null then Undefined
      else getDeepProperty h (get_prop h cur k) ks)"

text \<open>
  \<^verbatim>\<open>_setDeepProperty(obj, path, value)\<close>: the loop walks to the object that holds the
  last key and the assignment changes that object. \<open>InvalidPath\<close> is the
  \<^verbatim>\<open>console.error\<close> return of the loop, which assigns nothing. The source reads
  \<^verbatim>\<open>path[path.length-1]\<close>, which for an empty path is the key \<^verbatim>\<open>undefined\<close>;
  \<^verbatim>\<open>split\<close> never returns an empty path.
\<close>

datatype set_outcome = Assigned heap | InvalidPath

fun setDeepProperty :: "heap \<Rightarrow> jsval \<Rightarrow> string list \<Rightarrow> jsval \<Rightarrow> set_outcome option" where
  "setDeepProperty h cur [] x = map_option Assigned (set_prop h cur ''undefined'' x)"
| "setDeepProperty h cur (k # []) x = map_option Assigned (set_prop h cur k x)"
| "setDeepProperty h cur (k # k' # ks) x =
     (if cur = Undefined \<or> cur = Null then None
      else
        (let nxt = get_prop h cur k in
         if nxt = Undefined \<or> nxt = Null then Some InvalidPath
         else setDeepProperty h nxt (k' # ks) x))"

subsection \<open>Events\<close>

datatype event =
    ConsoleError string
  | ConsoleWarn string
  | OnUpdate nat jsval real
  | OnComplete nat
  | OnTimelineComplete nat

text \<open>A call of \<^verbatim>\<open>_setDeepProperty\<close>: the new heap and what the call logs.\<close>

definition write_prop ::
  "heap \<Rightarrow> jsval \<Rightarrow> string list \<Rightarrow> jsval \<Rightarrow> (heap \<times> event list) option" where
  "write_prop h obj path x =
     (case setDeepProperty h obj path x of
        None \<Rightarrow> None
      | Some InvalidPath \<Rightarrow> Some (h, [ConsoleError ''Invalid path for tween target property''])
      | Some (Assigned h') \<Rightarrow> Some (h', []))"

subsection \<open>Colours\<close>

text \<open>
  \<^verbatim>\<open>parseColor\<close> and the text that \<^verbatim>\<open>interpolateColor\<close> builds from the blended
  channels are string conversions of the platform (regular expressions, \<^verbatim>\<open>parseInt\<close>,
  \<^verbatim>\<open>toFixed\<close>, number to text). The engine only asks whether a string parses and
  passes the blended text on, so both are parameters: every theorem below holds for each
  parser and each serialiser.
\<close>

datatype rgba = RGBA real real real real

record codec =
  parseColor :: "string \<Rightarrow> rgba option"
  rgbaString :: "int \<Rightarrow> int \<Rightarrow> int \<Rightarrow> real \<Rightarrow> string"

text \<open>\<^verbatim>\<open>Math.round\<close>\<close>

definition js_round :: "real \<Rightarrow> int" where
  "js_round x = \<lfloor>x + 1 / 2\<rfloor>"

definition interpolateColor :: "codec \<Rightarrow> string \<Rightarrow> string \<Rightarrow> real \<Rightarrow> string" where
  "interpolateColor cd color1 color2 factor =
     (case parseColor cd color1 of
        None \<Rightarrow> color1
      | Some (RGBA r1 g1 b1 a1) \<Rightarrow>
          (case parseColor cd color2 of
             None \<Rightarrow> color1
           | Some (RGBA r2 g2 b2 a2) \<Rightarrow>
               rgbaString cd
                 (js_round (r1 + factor * (r2 - r1)))
                 (js_round (g1 + factor * (g2 - g1)))
                 (js_round (b1 + factor * (b2 - b1)))
                 (a1 + factor * (a2 - a1))))"

text \<open>\<^verbatim>\<open>typeof v === 'string' && parseColor(v)\<close>\<close>

fun isColorString :: "codec \<Rightarrow> jsval \<Rightarrow> bool" where
  "isColorString cd (Str s) = (parseColor cd s \<noteq> None)"
| "isColorString cd v = False"

subsection \<open>Views of a value that the source reads after a type test\<close>

fun str_of :: "jsval \<Rightarrow> string" where
  "str_of (Str s) = s"
| "str_of v = []"

fun num_of :: "jsval \<Rightarrow> real" where
  "num_of (Num n) = n"
| "num_of v = 0"

text \<open>The elements of an array, and \<^verbatim>\<open>arr[i]\<close>, which is \<^verbatim>\<open>undefined\<close> past the end.\<close>

fun elems :: "heap \<Rightarrow> jsval \<Rightarrow> jsval list" where
  "elems h (Ref a) = (case the_obj h a of Array xs \<Rightarrow> xs | _ \<Rightarrow> [])"
| "elems h v = []"

definition arr_at :: "heap \<Rightarrow> jsval \<Rightarrow> nat \<Rightarrow> jsval" where
  "arr_at h v i = (if i < length (elems h v) then elems h v ! i else Undefined)"

text \<open>
  \<^verbatim>\<open>v.x\<close> used as a number: a \<^verbatim>\<open>TypeError\<close> on \<^verbatim>\<open>undefined\<close> and \<^verbatim>\<open>null\<close>, and
  no number of the model unless the property holds one.
\<close>

definition num_field :: "heap \<Rightarrow> jsval \<Rightarrow> string \<Rightarrow> real option" where
  "num_field h v k =
     (if v = Undefined \<or> v = Null then None
      else (case get_prop h v k of Num n \<Rightarrow> Some n | _ \<Rightarrow> None))"

fun num_val :: "jsval \<Rightarrow> real option" where
  "num_val (Num n) = Some n"
| "num_val v = None"

definition lerp :: "real \<Rightarrow> real \<Rightarrow> real \<Rightarrow> real" where
  "lerp s e t = s + (e - s) * t"

subsection \<open>Values that the engine creates\<close>

text \<open>
  An expression of the source that creates an object (\<^verbatim>\<open>new Vec2(..)\<close>, \<^verbatim>\<open>v.clone()\<close>,
  \<^verbatim>\<open>arr.map(..)\<close>, \<^verbatim>\<open>[...arr]\<close>, \<^verbatim>\<open>{ ...obj }\<close>) is embedded in two steps: a
  description of the value, which reads the heap and changes nothing, and \<open>build\<close>,
  which creates the described objects in the heap and returns the value. \<open>Keep\<close>
  describes a value that exists already: a primitive or a reference. An element of a
  new array is a value that exists or a new \<^verbatim>\<open>Vec2\<close>.
\<close>

datatype element = Elem jsval | ElemVec2 jsval jsval

datatype shape =
    Keep jsval
  | NewVec2 jsval jsval
  | NewArray "element list"
  | NewObject "(string \<times> jsval) list"

fun build_element :: "heap \<Rightarrow> element \<Rightarrow> jsval \<times> heap" where
  "build_element h (Elem v) = (v, h)"
| "build_element h (ElemVec2 x y) = alloc h (Vec2 x y)"

fun build_elements :: "heap \<Rightarrow> element list \<Rightarrow> jsval list \<times> heap" where
  "build_elements h [] = ([], h)"
| "build_elements h (e # es) =
     (case build_element h e of
        (v, h1) \<Rightarrow> (case build_elements h1 es of (vs, h2) \<Rightarrow> (v # vs, h2)))"

fun build :: "heap \<Rightarrow> shape \<Rightarrow> jsval \<times> heap" where
  "build h (Keep v) = (v, h)"
| "build h (NewVec2 x y) = alloc h (Vec2 x y)"
| "build h (NewArray es) = (case build_elements h es of (vs, h1) \<Rightarrow> alloc h1 (Array vs))"
| "build h (NewObject kvs) = alloc h (Plain kvs)"

text \<open>
  \<^verbatim>\<open>v.clone()\<close>, that is \<^verbatim>\<open>new Vec2(this.x, this.y)\<close>: only a \<^verbatim>\<open>Vec2\<close> has the
  method.
\<close>

fun clone :: "heap \<Rightarrow> jsval \<Rightarrow> (jsval \<times> jsval) option" where
  "clone h (Ref a) = (case the_obj h a of Vec2 x y \<Rightarrow> Some (x, y) | _ \<Rightarrow> None)"
| "clone h v = None"

text \<open>\<^verbatim>\<open>arr.map(v => v.clone())\<close>, \<^verbatim>\<open>[...arr]\<close> and \<^verbatim>\<open>{ ...v }\<close>\<close>

definition map_clone :: "heap \<Rightarrow> jsval \<Rightarrow> shape option" where
  "map_clone h v =
     map_option NewArray
       (those (map (\<lambda>u. map_option (\<lambda>(x, y). ElemVec2 x y) (clone h u)) (elems h v)))"

definition copy_array :: "heap \<Rightarrow> jsval \<Rightarrow> shape" where
  "copy_array h v = NewArray (map Elem (elems h v))"

definition spread :: "heap \<Rightarrow> jsval \<Rightarrow> shape" where
  "spread h v = NewObject (own_props h v)"

text \<open>\<^verbatim>\<open>new Vec2(sv.x + (ev.x - sv.x) * t, sv.y + (ev.y - sv.y) * t)\<close>\<close>

definition lerp_vec :: "heap \<Rightarrow> real \<Rightarrow> jsval \<Rightarrow> jsval \<Rightarrow> (jsval \<times> jsval) option" where
  "lerp_vec h t sv ev =
     do {
       sx \<leftarrow> num_field h sv ''x'';
       ex \<leftarrow> num_field h ev ''x'';
       sy \<leftarrow> num_field h sv ''y'';
       ey \<leftarrow> num_field h ev ''y'';
       Some (Num (lerp sx ex t), Num (lerp sy ey t))
     }"

definition lerp_num :: "real \<Rightarrow> jsval \<Rightarrow> jsval \<Rightarrow> jsval option" where
  "lerp_num t sv ev =
     do {
       s \<leftarrow> num_val sv;
       e \<leftarrow> num_val ev;
       Some (Num (lerp s e t))
     }"

subsection \<open>Tween\<close>

record tween =
  target :: jsval
  propertyPath :: "string list"
  endValue :: jsval
  duration :: real
  easingFn :: "real \<Rightarrow> real"
  elapsedTime :: real
  isActive :: bool
  startValue :: jsval
  rawStartValue :: jsval
  rawEndValue :: jsval
  onUpdate :: "nat option"
  onComplete :: "nat option"
  managedByTimeline :: bool

text \<open>
  The constructor. It has no statement that throws once \<^verbatim>\<open>propertyPath\<close> is a
  string, so the result is always \<open>Some\<close>.
\<close>

definition Tween_constructor ::
  "jsval \<Rightarrow> string \<Rightarrow> jsval \<Rightarrow> real \<Rightarrow> (real \<Rightarrow> real) \<Rightarrow> tween option" where
  "Tween_constructor tgt path endV dur easing =
     Some \<lparr> target = tgt,
            propertyPath = split_dot path,
            endValue = endV,
            duration = dur,
            easingFn = easing,
            elapsedTime = 0,
            isActive = False,
            startValue = Null,
            rawStartValue = Null,
            rawEndValue = Null,
            onUpdate = None,
            onComplete = None,
            managedByTimeline = False \<rparr>"

text \<open>\<^verbatim>\<open>then(callback)\<close> and \<^verbatim>\<open>onProgress(callback)\<close>\<close>

definition Tween_then :: "nat \<Rightarrow> tween \<Rightarrow> tween" where
  "Tween_then cb tw = tw\<lparr>onComplete := Some cb\<rparr>"

definition Tween_onProgress :: "nat \<Rightarrow> tween \<Rightarrow> tween" where
  "Tween_onProgress cb tw = tw\<lparr>onUpdate := Some cb\<rparr>"

definition isDummy :: "tween \<Rightarrow> bool" where
  "isDummy tw = (join_dot (propertyPath tw) = dummyPath)"

text \<open>
  The type tests of \<^verbatim>\<open>start()\<close>, in the order of the source: from the value found at
  the path (\<open>raw\<close>), the end value and whether the path is the reserved one, either the
  description of the start value to capture or the message of the branch that logs and
  leaves the tween inactive.
\<close>

datatype capture = Captured shape | Rejected string

definition captureStart :: "codec \<Rightarrow> heap \<Rightarrow> jsval \<Rightarrow> jsval \<Rightarrow> bool \<Rightarrow> capture option" where
  "captureStart cd h raw rawEnd dummy =
     (if raw = Undefined \<and> \<not> dummy then
        Some (Rejected ''Tween: Property not found on target'')
      else if isColorString cd raw \<and> isColorString cd rawEnd then
        Some (Captured (Keep raw))
      else if instanceofVec2 h raw \<and> instanceofVec2 h rawEnd then
        map_option (\<lambda>(x, y). Captured (NewVec2 x y)) (clone h raw)
      else if isArray h raw \<and> isArray h rawEnd
              \<and> length (elems h raw) = length (elems h rawEnd) then
        (if length (elems h raw) = 0
            \<or> (instanceofVec2 h (arr_at h raw 0) \<and> instanceofVec2 h (arr_at h rawEnd 0)) then
           map_option Captured (map_clone h raw)
         else if length (elems h raw) = 0
            \<or> (typeof (arr_at h raw 0) = TNumber \<and> typeof (arr_at h rawEnd 0) = TNumber) then
           Some (Captured (copy_array h raw))
         else
           Some (Rejected ''Tween: Array elements are not consistently Vec2 or number, or types mismatch endValue.''))
      else if typeof raw = TNumber \<and> typeof rawEnd = TNumber then
        Some (Captured (Keep raw))
      else if isObject raw \<and> isObject rawEnd then
        Some (Captured (spread h raw))
      else if dummy then
        Some (Captured (Keep (Num 0)))
      else
        Some (Rejected ''Tween: StartValue type or EndValue type not supported for tweening property''))"

text \<open>\<^verbatim>\<open>start()\<close>. It creates the captured start value and assigns nothing to the target.\<close>

definition Tween_start :: "codec \<Rightarrow> tween \<Rightarrow> heap \<Rightarrow> (tween \<times> heap \<times> event list) option" where
  "Tween_start cd tw0 h =
     (let raw = getDeepProperty h (target tw0) (propertyPath tw0);
          tw = tw0\<lparr>rawStartValue := raw, rawEndValue := endValue tw0\<rparr>
      in
      map_option
        (\<lambda>c. case c of
               Captured s \<Rightarrow>
                 (case build h s of
                    (sv, h') \<Rightarrow>
                      (tw\<lparr>startValue := sv, elapsedTime := 0, isActive := True\<rparr>, h', []))
             | Rejected msg \<Rightarrow> (tw\<lparr>isActive := False\<rparr>, h, [ConsoleError msg]))
        (captureStart cd h raw (endValue tw0) (isDummy tw0)))"

text \<open>
  \<^verbatim>\<open>Math.min(this.elapsedTime / this.duration, 1)\<close>. With a duration of 0 the
  quotient is \<^verbatim>\<open>Infinity\<close> for a positive elapsed time (the minimum is then 1),
  and \<^verbatim>\<open>NaN\<close> or \<^verbatim>\<open>-Infinity\<close> otherwise, which the model does not follow.
\<close>

definition js_progress :: "real \<Rightarrow> real \<Rightarrow> real option" where
  "js_progress elapsed d =
     (if d = 0 then (if 0 < elapsed then Some 1 else None)
      else Some (min (elapsed / d) 1))"

text \<open>
  The record branch of \<^verbatim>\<open>update\<close>. \<open>record_assign\<close> is the body under the guard
  \<^verbatim>\<open>this.startValue.hasOwnProperty(key) && this.rawEndValue.hasOwnProperty(key)\<close>, and
  \<open>record_step\<close> one step of \<^verbatim>\<open>for (const key in this.rawEndValue)\<close> on the properties
  of \<^verbatim>\<open>currentValue\<close>, which start as those of the copy \<^verbatim>\<open>{ ...this.startValue }\<close>.
  The second method call is evaluated only if the first one answers \<^verbatim>\<open>true\<close>.
\<close>

definition record_assign ::
  "codec \<Rightarrow> real \<Rightarrow> real \<Rightarrow> jsval \<Rightarrow> jsval \<Rightarrow> string \<Rightarrow> (string \<times> jsval) list \<Rightarrow> (string \<times> jsval) list" where
  "record_assign cd progress eased s e key cur =
     (if typeof s = TNumber \<and> typeof e = TNumber then
        AList.update key (Num (lerp (num_of s) (num_of e) eased)) cur
      else if isColorString cd s \<and> isColorString cd e then
        AList.update key (Str (interpolateColor cd (str_of s) (str_of e) eased)) cur
      else if 1 \<le> progress then AList.update key e cur
      else cur)"

definition record_step ::
  "codec \<Rightarrow> real \<Rightarrow> real \<Rightarrow> heap \<Rightarrow> jsval \<Rightarrow> jsval \<Rightarrow> string \<Rightarrow> (string \<times> jsval) list
     \<Rightarrow> (string \<times> jsval) list option" where
  "record_step cd progress eased h sv ev key cur =
     do {
       inStart \<leftarrow> hasOwnProperty h sv key;
       if \<not> inStart then Some cur
       else
         do {
           inEnd \<leftarrow> hasOwnProperty h ev key;
           if \<not> inEnd then Some cur
           else Some (record_assign cd progress eased (get_prop h sv key) (get_prop h ev key)
                        key cur)
         }
     }"

fun record_loop ::
  "codec \<Rightarrow> real \<Rightarrow> real \<Rightarrow> heap \<Rightarrow> jsval \<Rightarrow> jsval \<Rightarrow> string list \<Rightarrow> (string \<times> jsval) list
     \<Rightarrow> (string \<times> jsval) list option" where
  "record_loop cd progress eased h sv ev [] cur = Some cur"
| "record_loop cd progress eased h sv ev (key # keys) cur =
     do {
       cur' \<leftarrow> record_step cd progress eased h sv ev key cur;
       record_loop cd progress eased h sv ev keys cur'
     }"

definition record_value :: "codec \<Rightarrow> real \<Rightarrow> real \<Rightarrow> heap \<Rightarrow> jsval \<Rightarrow> jsval \<Rightarrow> shape option" where
  "record_value cd progress eased h sv ev =
     map_option NewObject
       (record_loop cd progress eased h sv ev (map fst (own_props h ev)) (own_props h sv))"

text \<open>
  The value that \<^verbatim>\<open>update\<close> computes into \<^verbatim>\<open>currentValue\<close>, as a description.
  \<open>Unsupported\<close> is the branch that logs, deactivates the tween and returns. On the
  reserved path no branch assigns and \<^verbatim>\<open>currentValue\<close> stays \<^verbatim>\<open>undefined\<close>.
\<close>

datatype interp = Value shape | Unsupported

definition currentValue :: "codec \<Rightarrow> heap \<Rightarrow> tween \<Rightarrow> real \<Rightarrow> real \<Rightarrow> interp option" where
  "currentValue cd h tw progress eased =
     (let sv = startValue tw; rs = rawStartValue tw; re = rawEndValue tw in
      if isColorString cd rs \<and> isColorString cd re then
        Some (Value (Keep (Str (interpolateColor cd (str_of rs) (str_of re) eased))))
      else if instanceofVec2 h sv \<and> instanceofVec2 h re then
        map_option (\<lambda>(x, y). Value (NewVec2 x y)) (lerp_vec h eased sv re)
      else if isArray h sv \<and> isArray h re \<and> length (elems h sv) = length (elems h re) then
        (if length (elems h sv) = 0 then Some (Value (NewArray []))
         else if instanceofVec2 h (arr_at h sv 0) then
           map_option (Value \<circ> NewArray)
             (those (map (\<lambda>(s, e). map_option (\<lambda>(x, y). ElemVec2 x y) (lerp_vec h eased s e))
                       (zip (elems h sv) (elems h re))))
         else if typeof (arr_at h sv 0) = TNumber then
           map_option (Value \<circ> NewArray)
             (those (map (\<lambda>(s, e). map_option Elem (lerp_num eased s e))
                       (zip (elems h sv) (elems h re))))
         else Some (Value (Keep re)))
      else if typeof sv = TNumber \<and> typeof re = TNumber then
        Some (Value (Keep (Num (lerp (num_of sv) (num_of re) eased))))
      else if isObject sv \<and> isObject re then
        map_option Value (record_value cd progress eased h sv re)
      else if isDummy tw then Some (Value (Keep Undefined))
      else Some Unsupported)"

text \<open>
  The merge at completion, which changes the object found at the path in place:
  \<^verbatim>\<open>for (const key in this.rawEndValue) if (finalTargetObj.hasOwnProperty(key)) finalTargetObj[key] = this.rawEndValue[key]\<close>.
\<close>

fun merge_keys :: "heap \<Rightarrow> jsval \<Rightarrow> jsval \<Rightarrow> string list \<Rightarrow> heap option" where
  "merge_keys h obj re [] = Some h"
| "merge_keys h obj re (k # ks) =
     do {
       own \<leftarrow> hasOwnProperty h obj k;
       if own then
         do {
           h' \<leftarrow> set_prop h obj k (get_prop h re k);
           merge_keys h' obj re ks
         }
       else merge_keys h obj re ks
     }"

text \<open>The block under \<^verbatim>\<open>progress >= 1\<close> that sets the final value.\<close>

definition final_write :: "tween \<Rightarrow> heap \<Rightarrow> (heap \<times> event list) option" where
  "final_write tw h =
     (let re = rawEndValue tw in
      if isObject re \<and> \<not> instanceofVec2 h re \<and> \<not> isArray h re then
        (let finalTargetObj = getDeepProperty h (target tw) (propertyPath tw) in
         if isObject finalTargetObj then
           map_option (\<lambda>h'. (h', []))
             (merge_keys h finalTargetObj re (map fst (own_props h re)))
         else write_prop h (target tw) (propertyPath tw) re)
      else write_prop h (target tw) (propertyPath tw) re)"

text \<open>\<^verbatim>\<open>update(deltaTime)\<close>\<close>

definition Tween_update ::
  "codec \<Rightarrow> real \<Rightarrow> tween \<Rightarrow> heap \<Rightarrow> (tween \<times> heap \<times> event list) option" where
  "Tween_update cd deltaTime tw0 h =
     (if \<not> isActive tw0 then Some (tw0, h, [])
      else
        (let tw = (if \<not> managedByTimeline tw0
                   then tw0\<lparr>elapsedTime := elapsedTime tw0 + deltaTime\<rparr> else tw0)
         in
         do {
           progress \<leftarrow> js_progress (elapsedTime tw) (duration tw);
           cv \<leftarrow> currentValue cd h tw progress (easingFn tw progress);
           (case cv of
              Unsupported \<Rightarrow>
                Some (tw\<lparr>isActive := False\<rparr>, h,
                      [ConsoleError ''Tween: Unsupported property type for tweening during update.''])
            | Value s \<Rightarrow>
                (case build h s of
                   (v, h0) \<Rightarrow>
                     do {
                       (h1, e1) \<leftarrow> (if \<not> isDummy tw
                                     then write_prop h0 (target tw) (propertyPath tw) v
                                     else Some (h0, []));
                       let e2 = (case onUpdate tw of
                                   Some cb \<Rightarrow> [OnUpdate cb v progress]
                                 | None \<Rightarrow> []);
                       if 1 \<le> progress then
                         do {
                           (h3, e3) \<leftarrow> (if \<not> isDummy tw then final_write tw h1
                                         else Some (h1, []));
                           let e4 = (case onComplete tw of
                                       Some cb \<Rightarrow> [OnComplete cb]
                                     | None \<Rightarrow> []);
                           Some (tw\<lparr>isActive := False\<rparr>, h3, e1 @ e2 @ e3 @ e4)
                         }
                       else Some (tw, h1, e1 @ e2)
                     }))
         }))"

text \<open>\<^verbatim>\<open>setProgress(progressRatio)\<close>\<close>

definition Tween_setProgress ::
  "codec \<Rightarrow> real \<Rightarrow> tween \<Rightarrow> heap \<Rightarrow> (tween \<times> heap \<times> event list) option" where
  "Tween_setProgress cd progressRatio tw0 h =
     do {
       (tw1, h1, e1) \<leftarrow>
         (if \<not> isActive tw0 \<and> 0 < progressRatio \<and> progressRatio < 1 \<and> startValue tw0 = Null then
            map_option
              (\<lambda>(t, h', e). (t, h', ConsoleWarn ''Tween.setProgress called before start() or on an inactive tween. Forcing start.'' # e))
              (Tween_start cd tw0 h)
          else Some (tw0, h, []));
       let tw2 = (if \<not> isActive tw1 \<and> 0 < progressRatio \<and> progressRatio < 1
                  then tw1\<lparr>isActive := True\<rparr> else tw1);
       let tw3 = tw2\<lparr>elapsedTime := min (max 0 progressRatio) 1 * duration tw2\<rparr>;
       (tw4, h2, e2) \<leftarrow> Tween_update cd 0 tw3 h1;
       Some (tw4, h2, e1 @ e2)
     }"

text \<open>
  \<^verbatim>\<open>resetToStart()\<close>. The value to set is a copy of \<^verbatim>\<open>rawStartValue\<close>, the object
  that the property held when \<^verbatim>\<open>start()\<close> ran, as that object is now.
\<close>

definition Tween_resetToStart :: "tween \<Rightarrow> heap \<Rightarrow> (tween \<times> heap \<times> event list) option" where
  "Tween_resetToStart tw0 h =
     (let tw = tw0\<lparr>elapsedTime := 0, isActive := False\<rparr>;
          raw = rawStartValue tw
      in
      if startValue tw \<noteq> Null \<and> raw \<noteq> Null \<and> \<not> isDummy tw then
        do {
          valueToSet \<leftarrow>
            (if instanceofVec2 h raw then map_option (\<lambda>(x, y). NewVec2 x y) (clone h raw)
             else if isArray h raw \<and> 0 < length (elems h raw)
                     \<and> instanceofVec2 h (arr_at h raw 0) then
               map_clone h raw
             else if isArray h raw \<and> typeof (arr_at h raw 0) = TNumber then
               Some (copy_array h raw)
             else if isObject raw then Some (spread h raw)
             else Some (Keep raw));
          (case build h valueToSet of
             (v, h0) \<Rightarrow>
               do {
                 (h1, e) \<leftarrow> write_prop h0 (target tw) (propertyPath tw) v;
                 Some (tw, h1, e)
               })
        }
      else Some (tw, h, []))"

subsection \<open>Timeline\<close>

text \<open>An element of \<^verbatim>\<open>tweensWithMeta\<close>: \<^verbatim>\<open>{ tween, startTime, _hasStartedInternal }\<close>.\<close>

record item =
  tween :: tween
  startTime :: real
  hasStartedInternal :: bool

record timeline =
  tweensWithMeta :: "item list"
  currentTime :: real
  isPlaying :: bool
  timeScale :: real
  duration :: real
  loop :: bool
  onCompleteCallback :: "nat option"

definition Timeline_constructor :: timeline where
  "Timeline_constructor =
     \<lparr> tweensWithMeta = [], currentTime = 0, isPlaying = False, timeScale = 1,
       duration = 0, loop = False, onCompleteCallback = None \<rparr>"

definition tweenEndTime :: "item \<Rightarrow> real" where
  "tweenEndTime it = startTime it + tween.duration (tween it)"

definition recalculateDuration :: "timeline \<Rightarrow> timeline" where
  "recalculateDuration tln =
     tln\<lparr>duration := fold (\<lambda>it d. max d (tweenEndTime it)) (tweensWithMeta tln) 0\<rparr>"

text \<open>
  \<^verbatim>\<open>add(tween, startTime)\<close>. The first argument is a tween by its type, so the
  \<^verbatim>\<open>instanceof\<close> guard always passes.
\<close>

definition Timeline_add :: "tween \<Rightarrow> real \<Rightarrow> timeline \<Rightarrow> timeline" where
  "Timeline_add tw st tln =
     recalculateDuration
       (tln\<lparr>tweensWithMeta := tweensWithMeta tln @
              [\<lparr> tween = tw\<lparr>managedByTimeline := True\<rparr>, startTime = st,
                 hasStartedInternal = False \<rparr>]\<rparr>)"

text \<open>
  The sum of two doubles as the platform computes it: the exact sum, rounded to the
  nearest number \<open>m * 2 ^ q\<close> with \<open>\<bar>m\<bar> \<le> 2 ^ 53\<close> and \<open>q \<ge> - 1074\<close>, a tie going to
  the even \<open>m\<close> (IEEE 754 binary64, round to nearest, ties to even). \<open>floor_log2\<close>
  finds the binary exponent of a positive number by halving and doubling; its first
  argument bounds the number of steps and covers the exponents of all doubles. A sum
  whose rounding reaches \<open>2 ^ 1024\<close> is \<^verbatim>\<open>Infinity\<close> in the source and no number of
  the model: \<open>finite64\<close> tells the results that the model follows.
\<close>

definition round_even :: "real \<Rightarrow> int" where
  "round_even x =
     (let f = \<lfloor>x\<rfloor>; r = x - of_int f in
      if r < 1 / 2 then f
      else if 1 / 2 < r then f + 1
      else if even f then f else f + 1)"

function floor_log2 :: "nat \<Rightarrow> real \<Rightarrow> int \<Rightarrow> int" where
  "floor_log2 n x e =
     (if n = 0 then e
      else if 2 \<le> x then floor_log2 (n - 1) (x / 2) (e + 1)
      else if x < 1 then floor_log2 (n - 1) (2 * x) (e - 1)
      else e)"
  by pat_completeness auto
termination
  by (relation "measure (\<lambda>(n, x, e). n)") auto

declare floor_log2.simps [simp del]

definition pow2 :: "int \<Rightarrow> real" where
  "pow2 q = (if 0 \<le> q then 2 ^ nat q else 1 / 2 ^ nat (- q))"

definition round64 :: "real \<Rightarrow> real" where
  "round64 x =
     (if x = 0 then 0
      else
        (let q = max (floor_log2 1126 \<bar>x\<bar> 0 - 52) (- 1074) in
         sgn x * of_int (round_even (\<bar>x\<bar> / pow2 q)) * pow2 q))"

definition finite64 :: "real \<Rightarrow> bool" where
  "finite64 x = (\<bar>x\<bar> < 2 ^ 1024)"

definition js_add :: "real \<Rightarrow> real \<Rightarrow> real" where
  "js_add x y = round64 (x + y)"

text \<open>
  The options object of \<^verbatim>\<open>sequence\<close> and \<^verbatim>\<open>parallel\<close>; \<open>None\<close> is an absent key.
  \<^verbatim>\<open>x || d\<close> on a number takes \<^verbatim>\<open>d\<close> when \<^verbatim>\<open>x\<close> is absent or 0.
\<close>

record options =
  offset :: "real option"
  gap :: "real option"

definition or_else :: "real option \<Rightarrow> real \<Rightarrow> real" where
  "or_else x d = (case x of None \<Rightarrow> d | Some v \<Rightarrow> if v = 0 then d else v)"

text \<open>
  The loop of \<^verbatim>\<open>sequence\<close>:
  \<^verbatim>\<open>this.add(tween, currentTimeMarker); currentTimeMarker += tween.duration + gap\<close>.
  The right-hand side is added first, then the marker; both sums are rounded.
\<close>

fun sequence_loop :: "real \<Rightarrow> tween list \<Rightarrow> real \<Rightarrow> timeline \<Rightarrow> timeline" where
  "sequence_loop g [] currentTimeMarker tln = tln"
| "sequence_loop g (tw # tws) currentTimeMarker tln =
     sequence_loop g tws (js_add currentTimeMarker (js_add (tween.duration tw) g))
       (Timeline_add tw currentTimeMarker tln)"

definition Timeline_sequence :: "tween list \<Rightarrow> options \<Rightarrow> timeline \<Rightarrow> timeline" where
  "Timeline_sequence tweens opts tln =
     (let sequenceOffset = or_else (offset opts) (timeline.duration tln);
          g = or_else (gap opts) 0
      in sequence_loop g tweens sequenceOffset tln)"

fun parallel_loop :: "tween list \<Rightarrow> real \<Rightarrow> timeline \<Rightarrow> timeline" where
  "parallel_loop [] parallelOffset tln = tln"
| "parallel_loop (tw # tws) parallelOffset tln =
     parallel_loop tws parallelOffset (Timeline_add tw parallelOffset tln)"

definition Timeline_parallel :: "tween list \<Rightarrow> options \<Rightarrow> timeline \<Rightarrow> timeline" where
  "Timeline_parallel tweens opts tln =
     parallel_loop tweens (or_else (offset opts) (timeline.duration tln)) tln"

text \<open>
  The heap and the trace of events. \<open>commit\<close> stores the heap that a tween's method
  returns and appends its events to the trace.
\<close>

record world =
  heap :: heap
  trace :: "event list"

definition emit :: "event \<Rightarrow> world \<Rightarrow> world" where
  "emit e w = w\<lparr>trace := trace w @ [e]\<rparr>"

definition commit :: "world \<Rightarrow> ('x \<times> heap \<times> event list) option \<Rightarrow> ('x \<times> world) option" where
  "commit w r = map_option (\<lambda>(x, h', evs). (x, \<lparr> heap = h', trace = trace w @ evs \<rparr>)) r"

text \<open>
  \<^verbatim>\<open>resetAllTweensState()\<close>: \<^verbatim>\<open>item.tween.resetToStart(); item._hasStartedInternal = false\<close>
  for each item in turn.
\<close>

definition reset_body :: "item \<Rightarrow> heap \<Rightarrow> (item \<times> heap \<times> event list) option" where
  "reset_body it h =
     do {
       (tw', h', e) \<leftarrow> Tween_resetToStart (tween it) h;
       Some (it\<lparr>tween := tw', hasStartedInternal := False\<rparr>, h', e)
     }"

definition reset_item :: "item \<Rightarrow> world \<Rightarrow> (item \<times> world) option" where
  "reset_item it w =
     commit w (reset_body it (heap w))"

fun reset_items :: "item list \<Rightarrow> world \<Rightarrow> (item list \<times> world) option" where
  "reset_items [] w = Some ([], w)"
| "reset_items (it # its) w =
     do {
       (it', w') \<leftarrow> reset_item it w;
       (its', w'') \<leftarrow> reset_items its w';
       Some (it' # its', w'')
     }"

definition resetAllTweensState :: "timeline \<Rightarrow> world \<Rightarrow> (timeline \<times> world) option" where
  "resetAllTweensState tln w =
     do {
       (its, w') \<leftarrow> reset_items (tweensWithMeta tln) w;
       Some (tln\<lparr>tweensWithMeta := its\<rparr>, w')
     }"

text \<open>\<^verbatim>\<open>play()\<close>, \<^verbatim>\<open>playFromStart()\<close>, \<^verbatim>\<open>pause()\<close> and the setters\<close>

definition Timeline_play :: "timeline \<Rightarrow> world \<Rightarrow> (timeline \<times> world) option" where
  "Timeline_play tln w =
     (if isPlaying tln then Some (tln, w)
      else
        (let tl1 = tln\<lparr>isPlaying := True\<rparr> in
         if timeline.duration tl1 \<le> currentTime tl1 \<and> \<not> loop tl1 then
           resetAllTweensState (tl1\<lparr>currentTime := 0\<rparr>) w
         else Some (tl1, w)))"

definition Timeline_playFromStart :: "timeline \<Rightarrow> world \<Rightarrow> (timeline \<times> world) option" where
  "Timeline_playFromStart tln w =
     do {
       (tl1, w1) \<leftarrow> resetAllTweensState (tln\<lparr>currentTime := 0\<rparr>) w;
       Some (tl1\<lparr>isPlaying := True\<rparr>, w1)
     }"

definition Timeline_pause :: "timeline \<Rightarrow> timeline" where
  "Timeline_pause tln = tln\<lparr>isPlaying := False\<rparr>"

definition Timeline_setLoop :: "bool \<Rightarrow> timeline \<Rightarrow> timeline" where
  "Timeline_setLoop l tln = tln\<lparr>loop := l\<rparr>"

definition Timeline_setTimeScale :: "real \<Rightarrow> timeline \<Rightarrow> timeline" where
  "Timeline_setTimeScale sc tln = tln\<lparr>timeScale := sc\<rparr>"

definition Timeline_then :: "nat \<Rightarrow> timeline \<Rightarrow> timeline" where
  "Timeline_then cb tln = tln\<lparr>onCompleteCallback := Some cb\<rparr>"

text \<open>
  The body of the loop of \<^verbatim>\<open>seek\<close> for one item at play-head \<open>T\<close>, on the heap. In the
  first branch \<open>startTime \<le> T < startTime + duration\<close>, so the divisor
  is positive.
\<close>

definition seek_body ::
  "codec \<Rightarrow> real \<Rightarrow> item \<Rightarrow> heap \<Rightarrow> (item \<times> heap \<times> event list) option" where
  "seek_body cd T it h =
     (if startTime it \<le> T \<and> T < tweenEndTime it then
        do {
          (tw1, h1, e1) \<leftarrow> (if \<not> hasStartedInternal it then Tween_start cd (tween it) h
                            else Some (tween it, h, []));
          (tw2, h2, e2) \<leftarrow>
            Tween_setProgress cd ((T - startTime it) / tween.duration tw1) tw1 h1;
          Some (it\<lparr>tween := tw2, hasStartedInternal := True\<rparr>, h2, e1 @ e2)
        }
      else if tweenEndTime it \<le> T then
        (if hasStartedInternal it \<and> isActive (tween it) then
           do {
             (tw1, h1, e1) \<leftarrow> Tween_setProgress cd 1 (tween it) h;
             Some (it\<lparr>tween := tw1\<rparr>, h1, e1)
           }
         else if \<not> hasStartedInternal it then
           do {
             (tw1, h1, e1) \<leftarrow> Tween_start cd (tween it) h;
             (tw2, h2, e2) \<leftarrow> Tween_setProgress cd 1 tw1 h1;
             Some (it\<lparr>tween := tw2, hasStartedInternal := True\<rparr>, h2, e1 @ e2)
           }
         else Some (it, h, []))
      else
        (if hasStartedInternal it then reset_body it h
         else Some (it, h, [])))"

definition seek_item :: "codec \<Rightarrow> real \<Rightarrow> item \<Rightarrow> world \<Rightarrow> (item \<times> world) option" where
  "seek_item cd T it w =
     commit w (seek_body cd T it (heap w))"

fun seek_items :: "codec \<Rightarrow> real \<Rightarrow> item list \<Rightarrow> world \<Rightarrow> (item list \<times> world) option" where
  "seek_items cd T [] w = Some ([], w)"
| "seek_items cd T (it # its) w =
     do {
       (it', w') \<leftarrow> seek_item cd T it w;
       (its', w'') \<leftarrow> seek_items cd T its w';
       Some (it' # its', w'')
     }"

text \<open>\<^verbatim>\<open>seek(time)\<close>\<close>

definition Timeline_seek :: "codec \<Rightarrow> real \<Rightarrow> timeline \<Rightarrow> world \<Rightarrow> (timeline \<times> world) option" where
  "Timeline_seek cd time tln w =
     (let tl1 = tln\<lparr>currentTime := max 0 (min time (timeline.duration tln))\<rparr> in
      do {
        (its, w') \<leftarrow> seek_items cd (currentTime tl1) (tweensWithMeta tl1) w;
        Some (tl1\<lparr>tweensWithMeta := its\<rparr>, w')
      })"

text \<open>
  The body of the first loop of \<^verbatim>\<open>update\<close> for one item. The
  local \<^verbatim>\<open>allComplete\<close> is assigned in the source and never read; it is left out.
\<close>

definition update_body ::
  "codec \<Rightarrow> real \<Rightarrow> item \<Rightarrow> heap \<Rightarrow> (item \<times> heap \<times> event list) option" where
  "update_body cd T it h =
     (if startTime it \<le> T \<and> T < tweenEndTime it then
        do {
          (tw1, h1, e1) \<leftarrow> (if \<not> hasStartedInternal it then
                              do {
                                (tw', h', e') \<leftarrow> Tween_start cd (tween it) h;
                                Some (tw'\<lparr>isActive := True\<rparr>, h', e')
                              }
                            else Some (tween it, h, []));
          (tw2, h2, e2) \<leftarrow>
            Tween_setProgress cd ((T - startTime it) / tween.duration tw1) tw1 h1;
          Some (it\<lparr>tween := tw2, hasStartedInternal := True\<rparr>, h2, e1 @ e2)
        }
      else if tweenEndTime it \<le> T then
        (if hasStartedInternal it \<and> isActive (tween it) then
           do {
             (tw1, h1, e1) \<leftarrow> Tween_setProgress cd 1 (tween it) h;
             Some (it\<lparr>tween := tw1\<rparr>, h1, e1)
           }
         else Some (it, h, []))
      else if T < startTime it \<and> hasStartedInternal it then reset_body it h
      else Some (it, h, []))"

definition update_item :: "codec \<Rightarrow> real \<Rightarrow> item \<Rightarrow> world \<Rightarrow> (item \<times> world) option" where
  "update_item cd T it w =
     commit w (update_body cd T it (heap w))"

fun update_items :: "codec \<Rightarrow> real \<Rightarrow> item list \<Rightarrow> world \<Rightarrow> (item list \<times> world) option" where
  "update_items cd T [] w = Some ([], w)"
| "update_items cd T (it # its) w =
     do {
       (it', w') \<leftarrow> update_item cd T it w;
       (its', w'') \<leftarrow> update_items cd T its w';
       Some (it' # its', w'')
     }"

text \<open>The loop of the branch that stops a timeline that does not loop.\<close>

definition finish_body ::
  "codec \<Rightarrow> item \<Rightarrow> heap \<Rightarrow> (item \<times> heap \<times> event list) option" where
  "finish_body cd it h =
     (if hasStartedInternal it \<and> isActive (tween it) then
        do {
          (tw1, h1, e1) \<leftarrow> Tween_setProgress cd 1 (tween it) h;
          Some (it\<lparr>tween := tw1\<rparr>, h1, e1)
        }
      else Some (it, h, []))"

definition finish_item :: "codec \<Rightarrow> item \<Rightarrow> world \<Rightarrow> (item \<times> world) option" where
  "finish_item cd it w =
     commit w (finish_body cd it (heap w))"

fun finish_items :: "codec \<Rightarrow> item list \<Rightarrow> world \<Rightarrow> (item list \<times> world) option" where
  "finish_items cd [] w = Some ([], w)"
| "finish_items cd (it # its) w =
     do {
       (it', w') \<leftarrow> finish_item cd it w;
       (its', w'') \<leftarrow> finish_items cd its w';
       Some (it' # its', w'')
     }"

text \<open>
  \<^verbatim>\<open>a % b\<close>: the remainder has the sign of the dividend; \<^verbatim>\<open>NaN\<close> for \<open>b = 0\<close>.
\<close>

definition js_mod :: "real \<Rightarrow> real \<Rightarrow> real option" where
  "js_mod x y =
     (if y = 0 then None
      else Some (x - y * of_int (if 0 \<le> x / y then \<lfloor>x / y\<rfloor> else \<lceil>x / y\<rceil>)))"

text \<open>
  \<^verbatim>\<open>update(deltaTime)\<close>. The looping branch calls \<^verbatim>\<open>this.update(0)\<close>; nothing in
  the source bounds that recursion, so the function is defined as a partial one and
  \<open>None\<close> is also the run that does not return.
\<close>

partial_function (option) Timeline_update ::
  "codec \<Rightarrow> real \<Rightarrow> timeline \<Rightarrow> world \<Rightarrow> (timeline \<times> world) option" where
  "Timeline_update cd deltaTime tln w =
     (if \<not> isPlaying tln then Some (tln, w)
      else
        do {
          (its, w1) \<leftarrow>
            update_items cd (currentTime tln + deltaTime * timeScale tln) (tweensWithMeta tln) w;
          let tl1 = tln\<lparr>currentTime := currentTime tln + deltaTime * timeScale tln,
                      tweensWithMeta := its\<rparr>;
          if timeline.duration tl1 \<le> currentTime tl1 then
            (if loop tl1 then
               do {
                 wrapped \<leftarrow> js_mod (currentTime tl1) (timeline.duration tl1);
                 (tl2, w2) \<leftarrow> resetAllTweensState (tl1\<lparr>currentTime := wrapped\<rparr>) w1;
                 Timeline_update cd 0 tl2 w2
               }
             else
               do {
                 (its', w2) \<leftarrow> finish_items cd (tweensWithMeta tl1) w1;
                 Some (tl1\<lparr>isPlaying := False, tweensWithMeta := its'\<rparr>,
                       (case onCompleteCallback tl1 of
                          Some cb \<Rightarrow> emit (OnTimelineComplete cb) w2
                        | None \<Rightarrow> w2))
               })
          else Some (tl1, w1)
        })"

subsection \<open>Easing\<close>

text \<open>
  The base families of the table \<^verbatim>\<open>Easing\<close>, over exact reals. \<^verbatim>\<open>--t\<close> decrements
  \<open>t\<close> before the rest of the product reads it, so \<^verbatim>\<open>(--t) * t * t\<close> is the cube of
  \<open>t - 1\<close>. \<^verbatim>\<open>Math.pow(2, x)\<close> is \<open>2 powr x\<close>. \<^verbatim>\<open>Math.sqrt\<close> of a negative number is
  \<^verbatim>\<open>NaN\<close> in the source; the circular functions are modelled on \<open>[0, 1]\<close>, where the
  argument of the root is not negative.
\<close>

definition linear :: "real \<Rightarrow> real" where
  "linear t = t"

definition easeInQuad :: "real \<Rightarrow> real" where
  "easeInQuad t = t * t"

definition easeOutQuad :: "real \<Rightarrow> real" where
  "easeOutQuad t = t * (2 - t)"

definition easeInOutQuad :: "real \<Rightarrow> real" where
  "easeInOutQuad t = (if t < 0.5 then 2 * t * t else - 1 + (4 - 2 * t) * t)"

definition easeInCubic :: "real \<Rightarrow> real" where
  "easeInCubic t = t * t * t"

definition easeOutCubic :: "real \<Rightarrow> real" where
  "easeOutCubic t = (t - 1) * (t - 1) * (t - 1) + 1"

definition easeInOutCubic :: "real \<Rightarrow> real" where
  "easeInOutCubic t =
     (if t < 0.5 then 4 * t * t * t else (t - 1) * (2 * t - 2) * (2 * t - 2) + 1)"

definition easeInQuart :: "real \<Rightarrow> real" where
  "easeInQuart t = t * t * t * t"

definition easeOutQuart :: "real \<Rightarrow> real" where
  "easeOutQuart t = 1 - (t - 1) * (t - 1) * (t - 1) * (t - 1)"

definition easeInOutQuart :: "real \<Rightarrow> real" where
  "easeInOutQuart t =
     (if t < 0.5 then 8 * t * t * t * t
      else 1 - 8 * (t - 1) * (t - 1) * (t - 1) * (t - 1))"

definition easeInQuint :: "real \<Rightarrow> real" where
  "easeInQuint t = t * t * t * t * t"

definition easeOutQuint :: "real \<Rightarrow> real" where
  "easeOutQuint t = 1 + (t - 1) * (t - 1) * (t - 1) * (t - 1) * (t - 1)"

definition easeInOutQuint :: "real \<Rightarrow> real" where
  "easeInOutQuint t =
     (if t < 0.5 then 16 * t * t * t * t * t
      else 1 + 16 * (t - 1) * (t - 1) * (t - 1) * (t - 1) * (t - 1))"

definition easeInSine :: "real \<Rightarrow> real" where
  "easeInSine t = 1 - cos (t * pi / 2)"

definition easeOutSine :: "real \<Rightarrow> real" where
  "easeOutSine t = sin (t * pi / 2)"

definition easeInOutSine :: "real \<Rightarrow> real" where
  "easeInOutSine t = - (cos (pi * t) - 1) / 2"

definition easeInExpo :: "real \<Rightarrow> real" where
  "easeInExpo t = (if t = 0 then 0 else 2 powr (10 * (t - 1)))"

definition easeOutExpo :: "real \<Rightarrow> real" where
  "easeOutExpo t = (if t = 1 then 1 else 1 - 2 powr (- 10 * t))"

definition easeInOutExpo :: "real \<Rightarrow> real" where
  "easeInOutExpo t =
     (if t = 0 then 0
      else if t = 1 then 1
      else if t < 0.5 then 2 powr (20 * t - 10) / 2
      else (2 - 2 powr (- 20 * t + 10)) / 2)"

definition easeInCirc :: "real \<Rightarrow> real" where
  "easeInCirc t = 1 - sqrt (1 - t * t)"

definition easeOutCirc :: "real \<Rightarrow> real" where
  "easeOutCirc t = sqrt (1 - (t - 1) * (t - 1))"

definition easeInOutCirc :: "real \<Rightarrow> real" where
  "easeInOutCirc t =
     (if t < 0.5 then (1 - sqrt (1 - 4 * t * t)) / 2
      else (sqrt (1 - (- 2 * t + 2) * (- 2 * t + 2)) + 1) / 2)"

definition easeOutBounce :: "real \<Rightarrow> real" where
  "easeOutBounce t =
     (if t < 1 / 2.75 then 7.5625 * t * t
      else if t < 2 / 2.75 then 7.5625 * (t - 1.5 / 2.75) * (t - 1.5 / 2.75) + 0.75
      else if t < 2.5 / 2.75 then 7.5625 * (t - 2.25 / 2.75) * (t - 2.25 / 2.75) + 0.9375
      else 7.5625 * (t - 2.625 / 2.75) * (t - 2.625 / 2.75) + 0.984375)"

definition easeInBounce :: "real \<Rightarrow> real" where
  "easeInBounce t = 1 - easeOutBounce (1 - t)"

definition easeInOutBounce :: "real \<Rightarrow> real" where
  "easeInOutBounce t =
     (if t < 0.5 then easeInBounce (t * 2) * 0.5
      else easeOutBounce (t * 2 - 1) * 0.5 + 0.5)"

definition base_easings :: "(real \<Rightarrow> real) list" where
  "base_easings =
     [linear,
      easeInQuad, easeOutQuad, easeInOutQuad,
      easeInCubic, easeOutCubic, easeInOutCubic,
      easeInQuart, easeOutQuart, easeInOutQuart,
      easeInQuint, easeOutQuint, easeInOutQuint,
      easeInSine, easeOutSine, easeInOutSine,
      easeInExpo, easeOutExpo, easeInOutExpo,
      easeInCirc, easeOutCirc, easeInOutCirc,
      easeInBounce, easeOutBounce, easeInOutBounce]"

subsection \<open>Bindings\<close>





subsection \<open>Fixtures for the concrete runs\<close>

text \<open>A codec that recognises no colour, and a heap that holds one object, at address 0.\<close>

definition plain_codec :: codec where
  "plain_codec = \<lparr> parseColor = (\<lambda>s. None), rgbaString = (\<lambda>r g b a. []) \<rparr>"

definition one_object :: "jsobj \<Rightarrow> world" where
  "one_object ob = \<lparr> heap = [ob], trace = [] \<rparr>"

text \<open>
  The tween that \<^verbatim>\<open>new Tween(target, 'x', endX, d)\<close> builds on the object at address 0,
  and a playing timeline that holds one such tween from time 0 to time 2.
\<close>

definition x_tween :: "real \<Rightarrow> real \<Rightarrow> tween" where
  "x_tween endX d =
     \<lparr> target = Ref 0, propertyPath = [''x''], endValue = Num endX, duration = d,
       easingFn = linear, elapsedTime = 0, isActive = False, startValue = Null,
       rawStartValue = Null, rawEndValue = Null, onUpdate = None, onComplete = None,
       managedByTimeline = False \<rparr>"

definition playing_timeline :: timeline where
  "playing_timeline = (Timeline_add (x_tween 10 2) 0 Timeline_constructor)\<lparr>isPlaying := True\<rparr>"

text \<open>
  A timeline that lasts a tenth: one tween of duration \<^verbatim>\<open>0.1\<close> added at 0. A decimal
  literal of the source is the double nearest to it.
\<close>

definition tenth_timeline :: timeline where
  "tenth_timeline = Timeline_add (x_tween 1 (round64 (1 / 10))) 0 Timeline_constructor"



section \<open>Properties\<close>

lemmas heap_defs = obj_at_def the_obj_def alloc_def field_def index_of_def

lemmas tween_defs =
  Tween_constructor_def Tween_then_def Tween_onProgress_def Tween_start_def captureStart_def
  Tween_setProgress_def Tween_update_def
  Tween_resetToStart_def isDummy_def dummyPath_def currentValue_def
  js_progress_def write_prop_def final_write_def isObject_def lerp_def Let_def
  linear_def arr_at_def map_clone_def copy_array_def spread_def heap_defs

lemmas timeline_defs =
  Timeline_constructor_def Timeline_add_def recalculateDuration_def tweenEndTime_def
  Timeline_seek_def seek_item_def seek_body_def update_item_def update_body_def
  finish_item_def finish_body_def reset_item_def reset_body_def commit_def
  Timeline_play_def resetAllTweensState_def emit_def one_object_def

subsection \<open>The scalar scenario\<close>

text \<open>
  Claim C4. A tween on the target \<^verbatim>\<open>{x: 0}\<close> animates \<^verbatim>\<open>x\<close> to 10 over a duration of
  2. With linear easing, after \<^verbatim>\<open>start()\<close>, \<^verbatim>\<open>setProgress(0.5)\<close> leaves \<^verbatim>\<open>x\<close> at 5,
  \<^verbatim>\<open>setProgress(1)\<close> leaves \<^verbatim>\<open>x\<close> at 10, leaves the tween inactive (completed) and
  calls the completion callback once, and a further \<^verbatim>\<open>setProgress(1)\<close> leaves the target
  as it is and emits no event. That the value at progress 1 is the end value itself and
  not the blend shows with an easing function \<open>f\<close> that is not fixed: the progress
  callback receives the blend \<open>10 * f 1\<close>, and \<^verbatim>\<open>x\<close> is left at 10 whatever \<open>f 1\<close>
  is. The statement holds for every codec.
\<close>

theorem scalar_tween_half_then_complete_once:
  "do {
     tw0 \<leftarrow> Tween_constructor (Ref 0) ''x'' (Num 10) 2 linear;
     (tw1, h1, e1) \<leftarrow> Tween_start cd (Tween_then 1 tw0) [Plain [(''x'', Num 0)]];
     (tw2, h2, e2) \<leftarrow> Tween_setProgress cd (1 / 2) tw1 h1;
     (tw3, h3, e3) \<leftarrow> Tween_setProgress cd 1 tw2 h2;
     (tw4, h4, e4) \<leftarrow> Tween_setProgress cd 1 tw3 h3;
     Some (h2, h3, isActive tw3, e1 @ e2 @ e3, h4, isActive tw4, e4)
   } =
   Some ([Plain [(''x'', Num 5)]],
         [Plain [(''x'', Num 10)]], False, [OnComplete 1],
         [Plain [(''x'', Num 10)]], False, [])
   \<and>
   do {
     tw0 \<leftarrow> Tween_constructor (Ref 0) ''x'' (Num 10) 2 f;
     (tw1, h1, e1) \<leftarrow> Tween_start cd (Tween_onProgress 2 (Tween_then 1 tw0))
                        [Plain [(''x'', Num 0)]];
     (tw2, h2, e2) \<leftarrow> Tween_setProgress cd (1 / 2) tw1 h1;
     (tw3, h3, e3) \<leftarrow> Tween_setProgress cd 1 tw2 h2;
     (tw4, h4, e4) \<leftarrow> Tween_setProgress cd 1 tw3 h3;
     Some (h2, h3, isActive tw3, e1 @ e2 @ e3, h4, isActive tw4, e4)
   } =
   Some ([Plain [(''x'', Num (10 * f (1 / 2)))]],
         [Plain [(''x'', Num 10)]], False,
         [OnUpdate 2 (Num (10 * f (1 / 2))) (1 / 2), OnUpdate 2 (Num (10 * f 1)) 1, OnComplete 1],
         [Plain [(''x'', Num 10)]], False, [])"
  by (simp add: tween_defs)

subsection \<open>Construction\<close>

text \<open>
  Claim C6 says that constructing a tween with a duration of 0 or less fails with
  \<^verbatim>\<open>InvalidDuration\<close>. The constructor has no such check: with duration 0 it returns a
  tween.
\<close>

theorem constructor_accepts_zero_duration:
  "Tween_constructor (Ref 0) ''x'' (Num 10) 0 linear \<noteq> None"
  by (simp add: Tween_constructor_def)

text \<open>
  Claim C6 as amended: for every duration, also 0 and the negative ones, the constructor
  returns a tween that stores the duration unchanged and is unstarted: inactive, no
  elapsed time, no captured start value.
\<close>

theorem constructor_stores_any_duration:
  "\<exists>tw. Tween_constructor tgt path endV d easing = Some tw
        \<and> tween.duration tw = d \<and> \<not> isActive tw \<and> elapsedTime tw = 0
        \<and> startValue tw = Null"
  by (simp add: Tween_constructor_def)

subsection \<open>An entry that playback jumps over\<close>

text \<open>
  Claim C1 says that an entry whose window lies wholly before the play-head is started
  and set to progress 1, by \<^verbatim>\<open>update\<close> as by \<^verbatim>\<open>seek\<close>. One tween (\<^verbatim>\<open>x\<close> from 0 to
  10, duration 1) is added at start time 1, so the timeline lasts 2. After \<^verbatim>\<open>play()\<close>,
  \<^verbatim>\<open>update(3)\<close> stops the timeline at play-head 3 and leaves the entry unstarted,
  \<^verbatim>\<open>x\<close> at 0 and the trace empty; \<^verbatim>\<open>seek(3)\<close> on the same timeline starts the entry,
  sets \<^verbatim>\<open>x\<close> to 10 and calls the completion callback.
\<close>

theorem update_leaves_skipped_entry_unstarted:
  "do {
     tw \<leftarrow> Tween_constructor (Ref 0) ''x'' (Num 10) 1 linear;
     let tln0 = Timeline_add (Tween_then 1 tw) 1 Timeline_constructor;
     (tln1, w1) \<leftarrow> Timeline_play tln0 (one_object (Plain [(''x'', Num 0)]));
     (tln2, w2) \<leftarrow> Timeline_update plain_codec 3 tln1 w1;
     (tln3, w3) \<leftarrow> Timeline_seek plain_codec 3 tln0 (one_object (Plain [(''x'', Num 0)]));
     Some (timeline.duration tln0,
           (currentTime tln2, isPlaying tln2, map hasStartedInternal (tweensWithMeta tln2),
            heap w2, trace w2),
           (currentTime tln3, map hasStartedInternal (tweensWithMeta tln3),
            heap w3, trace w3))
   } =
   Some (2,
         (3, False, [False], [Plain [(''x'', Num 0)]], []),
         (2, [True], [Plain [(''x'', Num 10)]], [OnComplete 1]))"
  apply (simp add: tween_defs timeline_defs)
  apply (subst Timeline_update.simps)
  apply (simp add: tween_defs timeline_defs plain_codec_def)
  done

subsection \<open>Composition: \<^verbatim>\<open>sequence\<close> and \<^verbatim>\<open>parallel\<close>\<close>

lemma x_tween_constructed:
  "Tween_constructor (Ref 0) ''x'' (Num e) d linear = Some (x_tween e d)"
  by (simp add: Tween_constructor_def x_tween_def)

lemmas round64_eval = round64_def floor_log2.simps pow2_def round_even_def Let_def

lemma round64_tenths:
  "round64 (1 / 10) = 3602879701896397 / 2 ^ 55"
  "round64 (1 / 5) = 3602879701896397 / 2 ^ 54"
  "round64 (3 / 10) = 5404319552844595 / 2 ^ 54"
  by (simp_all add: round64_eval)

lemma js_add_tenths:
  "js_add (round64 (1 / 5)) (round64 (3 / 10)) = 1 / 2"
  "js_add (round64 (1 / 10)) (1 / 2) = 5404319552844595 / 2 ^ 53"
  "js_add (5404319552844595 / 2 ^ 53) (1 / 2) = 2476979795053773 / 2 ^ 51"
  "js_add (js_add (round64 (1 / 10)) (round64 (1 / 5))) (round64 (3 / 10))
     = 5404319552844596 / 2 ^ 53"
  by (simp_all add: js_add_def round64_eval)

lemma tenth_timeline_entries:
  "tweensWithMeta tenth_timeline
     = [\<lparr>tween = (x_tween 1 (round64 (1 / 10)))\<lparr>managedByTimeline := True\<rparr>,
          startTime = 0, hasStartedInternal = False\<rparr>]"
  "timeline.duration tenth_timeline = round64 (1 / 10)"
  using round64_tenths(1)
  by (simp_all add: tenth_timeline_def Timeline_add_def recalculateDuration_def tweenEndTime_def
      Timeline_constructor_def x_tween_def)

text \<open>
  Claim C7 says that the entry for \<^verbatim>\<open>B\<close> starts at
  \<^verbatim>\<open>A.startTime + A.duration + g\<close>. On the timeline that lasts \<^verbatim>\<open>0.1\<close>,
  \<^verbatim>\<open>sequence([A, B, C], {gap: 0.3})\<close> with \<^verbatim>\<open>A.duration = 0.2\<close> starts \<^verbatim>\<open>A\<close> at
  \<^verbatim>\<open>0.1\<close> and \<^verbatim>\<open>B\<close> at \<^verbatim>\<open>0.1 + (0.2 + 0.3)\<close>, which is the double \<^verbatim>\<open>0.6\<close>. The
  sum of the claim, taken from the left as the platform evaluates it, is the next
  double, \<^verbatim>\<open>0.6000000000000001\<close>, and the exact sum of the three doubles lies between
  the two.
\<close>

theorem sequence_start_time_differs_from_claimed_sum:
  "timeline.duration tenth_timeline = round64 (1 / 10)
   \<and> map startTime
       (tweensWithMeta
          (Timeline_sequence
             [x_tween 2 (round64 (1 / 5)), x_tween 3 (round64 (1 / 5)), x_tween 4 1]
             \<lparr>offset = None, gap = Some (round64 (3 / 10))\<rparr> tenth_timeline))
       = [0, round64 (1 / 10), 5404319552844595 / 2 ^ 53, 2476979795053773 / 2 ^ 51]
   \<and> js_add (js_add (round64 (1 / 10)) (round64 (1 / 5))) (round64 (3 / 10))
       = 5404319552844596 / 2 ^ 53
   \<and> round64 (1 / 10) + round64 (1 / 5) + round64 (3 / 10) = 21617278211378381 / 2 ^ 55
   \<and> (5404319552844595 / 2 ^ 53 :: real) < 21617278211378381 / 2 ^ 55
   \<and> (21617278211378381 / 2 ^ 55 :: real) < 5404319552844596 / 2 ^ 53"
proof -
  have g: "or_else (Some (round64 (3 / 10))) 0 = round64 (3 / 10)"
    using round64_tenths(3) by (simp add: or_else_def)
  have "map startTime
       (tweensWithMeta
          (Timeline_sequence
             [x_tween 2 (round64 (1 / 5)), x_tween 3 (round64 (1 / 5)), x_tween 4 1]
             \<lparr>offset = None, gap = Some (round64 (3 / 10))\<rparr> tenth_timeline))
       = [0, round64 (1 / 10),
          js_add (round64 (1 / 10)) (js_add (round64 (1 / 5)) (round64 (3 / 10))),
          js_add (js_add (round64 (1 / 10)) (js_add (round64 (1 / 5)) (round64 (3 / 10))))
            (js_add (round64 (1 / 5)) (round64 (3 / 10)))]"
    by (simp add: Timeline_sequence_def Timeline_add_def recalculateDuration_def g
        tenth_timeline_entries x_tween_def Let_def or_else_def [of None])
  then have "map startTime
       (tweensWithMeta
          (Timeline_sequence
             [x_tween 2 (round64 (1 / 5)), x_tween 3 (round64 (1 / 5)), x_tween 4 1]
             \<lparr>offset = None, gap = Some (round64 (3 / 10))\<rparr> tenth_timeline))
       = [0, round64 (1 / 10), 5404319552844595 / 2 ^ 53, 2476979795053773 / 2 ^ 51]"
    unfolding js_add_tenths .
  moreover have "round64 (1 / 10) + round64 (1 / 5) + round64 (3 / 10)
                   = 21617278211378381 / 2 ^ 55"
    unfolding round64_tenths by simp
  ultimately show ?thesis
    using tenth_timeline_entries(2) js_add_tenths(4) by simp
qed

text \<open>
  Claim C7 as amended. \<^verbatim>\<open>sequence([A, B, C], {gap: g})\<close> appends three entries: the
  first starts at the duration the timeline has at the call, the second at the first's
  start time plus the sum of the duration of \<^verbatim>\<open>A\<close> and \<open>g\<close>, the third at the
  second's start time plus the sum of the duration of \<^verbatim>\<open>B\<close> and \<open>g\<close>, each sum
  being the rounded sum of two doubles, as long as the sums are finite.
\<close>

theorem sequence_chains_start_times:
  assumes "finite64 (js_add (tween.duration A) g)"
    and "finite64 (js_add (timeline.duration tln) (js_add (tween.duration A) g))"
    and "finite64 (js_add (tween.duration B) g)"
    and "finite64 (js_add (js_add (timeline.duration tln) (js_add (tween.duration A) g))
                     (js_add (tween.duration B) g))"
  shows "\<exists>a b c.
     tweensWithMeta (Timeline_sequence [A, B, C] \<lparr>offset = None, gap = Some g\<rparr> tln)
       = tweensWithMeta tln @ [a, b, c]
     \<and> tween a = A\<lparr>managedByTimeline := True\<rparr>
     \<and> tween b = B\<lparr>managedByTimeline := True\<rparr>
     \<and> tween c = C\<lparr>managedByTimeline := True\<rparr>
     \<and> startTime a = timeline.duration tln
     \<and> startTime b = js_add (startTime a) (js_add (tween.duration (tween a)) g)
     \<and> startTime c = js_add (startTime b) (js_add (tween.duration (tween b)) g)"
proof -
  let ?e = "\<lambda>tw s. \<lparr>tween = tw\<lparr>managedByTimeline := True\<rparr>, startTime = s,
                      hasStartedInternal = False\<rparr>"
  let ?b = "js_add (timeline.duration tln) (js_add (tween.duration A) g)"
  have "tweensWithMeta (Timeline_sequence [A, B, C] \<lparr>offset = None, gap = Some g\<rparr> tln)
         = tweensWithMeta tln @
             [?e A (timeline.duration tln), ?e B ?b,
              ?e C (js_add ?b (js_add (tween.duration B) g))]"
    by (simp add: Timeline_sequence_def Timeline_add_def recalculateDuration_def
        or_else_def Let_def)
  then show ?thesis
    by (intro exI conjI) (assumption, simp_all)
qed

theorem sequence_chains_start_times_witness:
  "finite64 (js_add (round64 (1 / 5)) (round64 (3 / 10)))
   \<and> finite64 (js_add (timeline.duration tenth_timeline)
                 (js_add (round64 (1 / 5)) (round64 (3 / 10))))
   \<and> finite64 (js_add (js_add (timeline.duration tenth_timeline)
                         (js_add (round64 (1 / 5)) (round64 (3 / 10))))
                 (js_add (round64 (1 / 5)) (round64 (3 / 10))))
   \<and> (\<exists>a b c.
        tweensWithMeta
          (Timeline_sequence
             [x_tween 2 (round64 (1 / 5)), x_tween 3 (round64 (1 / 5)), x_tween 4 1]
             \<lparr>offset = None, gap = Some (round64 (3 / 10))\<rparr> tenth_timeline)
          = tweensWithMeta tenth_timeline @ [a, b, c]
        \<and> startTime a = round64 (1 / 10)
        \<and> startTime b = js_add (startTime a) (js_add (round64 (1 / 5)) (round64 (3 / 10)))
        \<and> startTime b = 5404319552844595 / 2 ^ 53)"
proof -
  let ?A = "x_tween 2 (round64 (1 / 5))" and ?B = "x_tween 3 (round64 (1 / 5))"
  let ?g = "round64 (3 / 10)"
  have dur: "tween.duration ?A = round64 (1 / 5)" "tween.duration ?B = round64 (1 / 5)"
    "tween.duration (?A\<lparr>managedByTimeline := True\<rparr>) = round64 (1 / 5)"
    by (simp_all add: x_tween_def)
  have fin: "finite64 (js_add (tween.duration ?A) ?g)"
    "finite64 (js_add (timeline.duration tenth_timeline) (js_add (tween.duration ?A) ?g))"
    "finite64 (js_add (tween.duration ?B) ?g)"
    "finite64 (js_add (js_add (timeline.duration tenth_timeline) (js_add (tween.duration ?A) ?g))
                 (js_add (tween.duration ?B) ?g))"
    unfolding dur tenth_timeline_entries js_add_tenths by (simp_all add: finite64_def)
  from sequence_chains_start_times [OF fin, of "x_tween 4 1"]
  obtain a b c where
      its: "tweensWithMeta
          (Timeline_sequence [?A, ?B, x_tween 4 1] \<lparr>offset = None, gap = Some ?g\<rparr>
             tenth_timeline)
          = tweensWithMeta tenth_timeline @ [a, b, c]"
      and a: "tween a = ?A\<lparr>managedByTimeline := True\<rparr>"
        "startTime a = timeline.duration tenth_timeline"
      and b: "startTime b = js_add (startTime a) (js_add (tween.duration (tween a)) ?g)"
    by blast
  have sa: "startTime a = round64 (1 / 10)"
    using a by (simp add: tenth_timeline_entries)
  have sb: "startTime b = js_add (startTime a) (js_add (round64 (1 / 5)) ?g)"
    using b a by (simp add: dur)
  have "startTime b = 5404319552844595 / 2 ^ 53"
    unfolding sb sa js_add_tenths ..
  with sa sb its fin show ?thesis
    unfolding dur by blast
qed

lemma sequence_loop_prefix:
  "\<exists>rest. tweensWithMeta (sequence_loop g tws m tln) = tweensWithMeta tln @ rest"
proof (induction tws arbitrary: m tln)
  case Nil
  show ?case by simp
next
  case (Cons tw tws)
  obtain rest where
    "tweensWithMeta (sequence_loop g tws (js_add m (js_add (tween.duration tw) g)) (Timeline_add tw m tln))
       = tweensWithMeta (Timeline_add tw m tln) @ rest"
    using Cons.IH by blast
  then show ?case
    by (simp add: Timeline_add_def recalculateDuration_def)
qed

lemma parallel_loop_entries:
  "tweensWithMeta (parallel_loop tws m tln) =
     tweensWithMeta tln @
       map (\<lambda>tw. \<lparr>tween = tw\<lparr>managedByTimeline := True\<rparr>, startTime = m,
                   hasStartedInternal = False\<rparr>) tws"
  by (induction tws arbitrary: tln) (simp_all add: Timeline_add_def recalculateDuration_def)

text \<open>
  Claim C9. An explicit \<^verbatim>\<open>offset: 0\<close> gives the same timeline as no offset, for
  \<^verbatim>\<open>sequence\<close> and for \<^verbatim>\<open>parallel\<close>. On a timeline of positive duration the first
  entry of the sequence, and every entry of the parallel group, then starts at that
  duration and not at 0.
\<close>

theorem explicit_zero_offset_is_default:
  "Timeline_sequence tws \<lparr>offset = Some 0, gap = gp\<rparr> tln
     = Timeline_sequence tws \<lparr>offset = None, gap = gp\<rparr> tln
   \<and> Timeline_parallel tws \<lparr>offset = Some 0, gap = gp\<rparr> tln
     = Timeline_parallel tws \<lparr>offset = None, gap = gp\<rparr> tln
   \<and> (0 < timeline.duration tln \<and> tws \<noteq> [] \<longrightarrow>
        startTime (tweensWithMeta (Timeline_sequence tws \<lparr>offset = Some 0, gap = gp\<rparr> tln)
                     ! length (tweensWithMeta tln)) = timeline.duration tln
        \<and> (\<forall>it \<in> set (drop (length (tweensWithMeta tln))
                       (tweensWithMeta (Timeline_parallel tws \<lparr>offset = Some 0, gap = gp\<rparr> tln))).
              startTime it = timeline.duration tln \<and> startTime it \<noteq> 0))"
proof -
  have first:
    "startTime (tweensWithMeta (sequence_loop g tws m tln) ! length (tweensWithMeta tln)) = m"
    if ne: "tws \<noteq> []" for g m
  proof -
    obtain tw rest where tws: "tws = tw # rest" using ne by (cases tws) auto
    obtain more where
      "tweensWithMeta (sequence_loop g rest (js_add m (js_add (tween.duration tw) g)) (Timeline_add tw m tln))
         = tweensWithMeta (Timeline_add tw m tln) @ more"
      using sequence_loop_prefix by blast
    then show ?thesis
      by (simp add: tws Timeline_add_def recalculateDuration_def nth_append)
  qed
  show ?thesis
    by (auto simp: Timeline_sequence_def Timeline_parallel_def or_else_def first
        parallel_loop_entries)
qed

theorem explicit_zero_offset_is_default_witness:
  "0 < timeline.duration playing_timeline \<and> [x_tween 7 1] \<noteq> []
   \<and> map startTime
       (tweensWithMeta (Timeline_sequence [x_tween 7 1] \<lparr>offset = Some 0, gap = None\<rparr>
          playing_timeline)) = [0, 2]
   \<and> map startTime
       (tweensWithMeta (Timeline_parallel [x_tween 7 1] \<lparr>offset = Some 0, gap = None\<rparr>
          playing_timeline)) = [0, 2]"
  using explicit_zero_offset_is_default [of "[x_tween 7 1]" None playing_timeline]
  by (simp add: playing_timeline_def Timeline_sequence_def Timeline_parallel_def or_else_def
      timeline_defs x_tween_def)

subsection \<open>The play-head\<close>






subsection \<open>Reading and assigning through a path\<close>

lemma the_obj_append [simp]: "a < length h \<Longrightarrow> the_obj (h @ xs) a = the_obj h a"
  by (simp add: the_obj_def obj_at_def nth_append)

lemma obj_at_append [simp]: "a < length h \<Longrightarrow> obj_at (h @ xs) a = obj_at h a"
  by (simp add: obj_at_def nth_append)





lemma getDeep_Undefined [simp]: "getDeepProperty h Undefined ks = Undefined"
  by (cases ks) simp_all

lemma getDeep_Null_Cons [simp]: "getDeepProperty h Null (k # ks) = Undefined"
  by simp





subsection \<open>Properties of an object\<close>








subsection \<open>The record loop and the merge\<close>












subsection \<open>Record values\<close>


text \<open>
  The loop asks \<^verbatim>\<open>this.startValue.hasOwnProperty(key)\<close>, a method call on the record
  itself. A start value \<^verbatim>\<open>{hasOwnProperty: 1, a: 1}\<close> hides the inherited method
  behind a number: \<^verbatim>\<open>start()\<close> copies the record and the first \<^verbatim>\<open>setProgress\<close>
  throws.
\<close>

lemma hasOwnProperty_own_key_throws:
  "do {
     let h0 = [Plain [(''style'', Ref 1)], Plain [(''hasOwnProperty'', Num 1), (''a'', Num 1)],
               Plain [(''a'', Num 2)]];
     tw \<leftarrow> Tween_constructor (Ref 0) ''style'' (Ref 2) 1 linear;
     (tw1, h1, e1) \<leftarrow> Tween_start plain_codec tw h0;
     Some (isActive tw1, own_props h1 (startValue tw1),
           Tween_setProgress plain_codec (1 / 2) tw1 h1)
   } = Some (True, [(''hasOwnProperty'', Num 1), (''a'', Num 1)], None)"
  by (simp add: tween_defs plain_codec_def record_value_def record_step_def
      record_assign_def hasOwnProperty_def)



subsection \<open>Rewinding an array\<close>

text \<open>
  Claim C10 says that \<^verbatim>\<open>play()\<close> on a stopped timeline at its end, which does not
  loop, sets \<^verbatim>\<open>currentTime\<close> to 0 and resets every tween to unstarted, writing the
  captured start value back. A tween animates \<^verbatim>\<open>points\<close> from the empty array to the
  empty array over a duration of 1. The target is at address 0, its array at address 1
  and the end value at address 2. Two updates by 0.5 complete the tween and stop the
  timeline at \<^verbatim>\<open>currentTime\<close> 1: the value that \<^verbatim>\<open>start()\<close> found is the array at
  address 1, and \<^verbatim>\<open>points\<close> holds the end value, an empty array. \<^verbatim>\<open>play()\<close> then
  rewinds and resets the tween, and leaves in \<^verbatim>\<open>points\<close> a new object, at address 6,
  which is the empty plain object \<^verbatim>\<open>{}\<close> and no array.
\<close>

theorem play_rewind_writes_object_for_empty_array:
  "do {
     tw \<leftarrow> Tween_constructor (Ref 0) ''points'' (Ref 2) 1 linear;
     let tln0 = Timeline_add tw 0 Timeline_constructor;
     (tln1, w1) \<leftarrow> Timeline_play tln0
                     \<lparr>heap = [Plain [(''points'', Ref 1)], Array [], Array []], trace = []\<rparr>;
     (tln2, w2) \<leftarrow> Timeline_update plain_codec (1 / 2) tln1 w1;
     (tln3, w3) \<leftarrow> Timeline_update plain_codec (1 / 2) tln2 w2;
     (tln4, w4) \<leftarrow> Timeline_play tln3 w3;
     Some ((isPlaying tln3, loop tln3, currentTime tln3, timeline.duration tln3,
            map (rawStartValue \<circ> tween) (tweensWithMeta tln3), heap w3),
           (isPlaying tln4, currentTime tln4,
            map (\<lambda>it. (hasStartedInternal it, isActive (tween it), elapsedTime (tween it)))
              (tweensWithMeta tln4),
            heap w4))
   } =
   Some ((False, False, 1, 1, [Ref 1],
          [Plain [(''points'', Ref 2)], Array [], Array [], Array [], Array [], Array []]),
         (True, 0, [(False, False, 0)],
          [Plain [(''points'', Ref 6)], Array [], Array [], Array [], Array [], Array [],
           Plain []]))"
  apply (simp add: tween_defs timeline_defs)
  apply (subst Timeline_update.simps)
  apply (simp add: tween_defs timeline_defs plain_codec_def)
  apply (subst Timeline_update.simps)
  apply (simp add: tween_defs timeline_defs plain_codec_def)
  done

subsection \<open>Easing at the end points, in exact arithmetic\<close>

text \<open>
  Over the reals each base easing function maps 0 to 0 and 1 to 1. This says nothing
  about the rounded results of IEEE doubles: there \<^verbatim>\<open>Math.cos(Math.PI / 2)\<close> is about
  \<open>6.1e-17\<close>, not 0, and \<^verbatim>\<open>1 - Math.cos(Math.PI / 2)\<close> rounds below 1.
\<close>

lemma polynomial_easings_endpoints:
  "easeInQuad 0 = 0" "easeInQuad 1 = 1" "easeOutQuad 0 = 0" "easeOutQuad 1 = 1"
  "easeInOutQuad 0 = 0" "easeInOutQuad 1 = 1"
  "easeInCubic 0 = 0" "easeInCubic 1 = 1" "easeOutCubic 0 = 0" "easeOutCubic 1 = 1"
  "easeInOutCubic 0 = 0" "easeInOutCubic 1 = 1"
  "easeInQuart 0 = 0" "easeInQuart 1 = 1" "easeOutQuart 0 = 0" "easeOutQuart 1 = 1"
  "easeInOutQuart 0 = 0" "easeInOutQuart 1 = 1"
  "easeInQuint 0 = 0" "easeInQuint 1 = 1" "easeOutQuint 0 = 0" "easeOutQuint 1 = 1"
  "easeInOutQuint 0 = 0" "easeInOutQuint 1 = 1"
  by (simp_all add: easeInQuad_def easeOutQuad_def easeInOutQuad_def
      easeInCubic_def easeOutCubic_def easeInOutCubic_def
      easeInQuart_def easeOutQuart_def easeInOutQuart_def
      easeInQuint_def easeOutQuint_def easeInOutQuint_def)

lemma transcendental_easings_endpoints:
  "easeInSine 0 = 0" "easeInSine 1 = 1" "easeOutSine 0 = 0" "easeOutSine 1 = 1"
  "easeInOutSine 0 = 0" "easeInOutSine 1 = 1"
  "easeInExpo 0 = 0" "easeInExpo 1 = 1" "easeOutExpo 0 = 0" "easeOutExpo 1 = 1"
  "easeInOutExpo 0 = 0" "easeInOutExpo 1 = 1"
  "easeInCirc 0 = 0" "easeInCirc 1 = 1" "easeOutCirc 0 = 0" "easeOutCirc 1 = 1"
  "easeInOutCirc 0 = 0" "easeInOutCirc 1 = 1"
  by (simp_all add: easeInSine_def easeOutSine_def easeInOutSine_def
      easeInExpo_def easeOutExpo_def easeInOutExpo_def
      easeInCirc_def easeOutCirc_def easeInOutCirc_def)

lemma bounce_easings_endpoints:
  "easeOutBounce 0 = 0" "easeOutBounce 1 = 1" "easeInBounce 0 = 0" "easeInBounce 1 = 1"
  "easeInOutBounce 0 = 0" "easeInOutBounce 1 = 1"
  by (simp_all add: easeOutBounce_def easeInBounce_def easeInOutBounce_def)

lemma base_easings_endpoints_exact_arithmetic:
  "\<forall>e \<in> set base_easings. e 0 = 0 \<and> e 1 = 1"
  by (simp add: base_easings_def linear_def polynomial_easings_endpoints
      transcendental_easings_endpoints bounce_easings_endpoints)

end
